theory Spec2Isabelle
  imports Main "HOL-Library.AList" "HOL-Library.Char_ord" "HOL-Library.List_Lexorder"
begin

section \<open>The syntax tree handed over by the Go parser\<close>

text \<open>
  smtrun reads an SMTL file with Go's own parser (\<open>go/parser\<close>) and walks the resulting
  \<open>go/ast\<close> tree. The tree is modelled as far as the program looks at it: every node kind
  that one of its type switches names is a constructor, and the node kinds that only ever
  reach a \<open>default\<close> branch are gathered in \<open>OtherExpr\<close>, \<open>OtherSpec\<close> and \<open>OtherStmt\<close>.
\<close>

text \<open>\<open>token.Token\<close>: literal kinds, operators and the keywords of a \<open>GenDecl\<close>.\<close>

datatype token =
    INT' | FLOAT | IMAG | CHAR' | STRING
  | ADD | SUB | MUL | QUO | REM
  | AND | OR | XOR | SHL | SHR | AND_NOT
  | LAND | LOR | ARROW
  | EQL | LSS | GTR | NOT
  | NEQ | LEQ | GEQ | TILDE
  | IMPORT | CONST | TYPE | VAR

text \<open>
  \<open>ast.Expr\<close>. \<open>Ident\<close> carries \<open>Name\<close>, \<open>BasicLit\<close> carries \<open>Kind\<close> and \<open>Value\<close>,
  \<open>BinaryExpr\<close> carries \<open>X\<close>, \<open>Op\<close>, \<open>Y\<close>, \<open>UnaryExpr\<close> carries \<open>Op\<close> and \<open>X\<close>, \<open>CallExpr\<close>
  carries \<open>Fun\<close> and \<open>Args\<close>, \<open>SelectorExpr\<close> carries \<open>X\<close> and \<open>Sel.Name\<close>.
\<close>

datatype expr =
    Ident string
  | BasicLit token string
  | BinaryExpr expr token expr
  | UnaryExpr token expr
  | CallExpr expr "expr list"
  | ParenExpr expr
  | SelectorExpr expr string
  | ArrayType "expr option" expr
  | OtherExpr

text \<open>\<open>ast.Spec\<close>: a \<open>ValueSpec\<close> has \<open>Names\<close>, an optional \<open>Type\<close> and \<open>Values\<close>.\<close>

datatype spec =
    ValueSpec "string list" "expr option" "expr list"
  | OtherSpec

text \<open>
  \<open>ast.Field\<close> (the names and the type of a parameter group), and the mutually recursive
  \<open>ast.Stmt\<close> and \<open>ast.Decl\<close>. A \<open>FuncDecl\<close> carries \<open>Name.Name\<close>, the parameter list of
  its \<open>Type\<close> and its \<open>Body\<close>, which is \<open>nil\<close> for a declaration without a body
  (\<open>func main()\<close> with no braces is accepted by the parser).
\<close>

datatype field = Field "string list" expr

datatype stmt =
    DeclStmt decl
  | ExprStmt expr
  | OtherStmt
and decl =
    GenDecl token "spec list"
  | FuncDecl string "field list" "stmt list option"
  | BadDecl

text \<open>\<open>ast.File\<close>: the package name and the top-level declarations.\<close>

record astFile =
  Name :: string
  Decls :: "decl list"

section \<open>Errors, panics and the solver's terms\<close>

text \<open>
  Every error of the program is made by \<open>fmt.Errorf\<close> from a fixed message; the datatype has
  one constructor for each message, and \<open>Error\<close> gives the message back (the typing errors
  of the messages are the program's). \<open>ParseFileError\<close> is whatever \<open>parser.ParseFile\<close>
  reports.
\<close>

datatype error =
    ParseFileError string
  | IsNotSupportedPackage string
  | NotSupportedStmt
  | NotSupportedTokOfDeclStmt
  | TypeIsNotSupported string
  | ArrayTypeOfVarSpecIsNotSupported
  | NotSupportedTypeOfValueSpec
  | VarIsAlreadyDeclared string
  | AssertMustHaveSingleArgument
  | NotSupportedFunOfCallExpr
  | NotSupportedXOfExprStmt
  | NotSupportedExpr
  | IsUnknownVariable string
  | NotSupportedBop
  | TooFewArgumentOfCallExpr
  | DistinctMustHave2ArgumentsAtLeast
  | NotSupportedNameOfIndent
  | ImplesMustHaveSignleArgument
  | IffMustHaveSingleArgument
  | NotSupportedSelNameOfSelectorExpr

fun Error :: "error \<Rightarrow> string" where
  "Error (ParseFileError m) = m"
| "Error (IsNotSupportedPackage n) = n @ '' is not supported package''"
| "Error NotSupportedStmt = ''not supported Stmt''"
| "Error NotSupportedTokOfDeclStmt = ''not supported Tok of DeclStmt''"
| "Error (TypeIsNotSupported n) = ''type '' @ n @ '' is not supported''"
| "Error ArrayTypeOfVarSpecIsNotSupported = ''ArrayType of VarSpec is not supported''"
| "Error NotSupportedTypeOfValueSpec = ''not supported Type of ValueSpec''"
| "Error (VarIsAlreadyDeclared n) = ''var '' @ n @ '' is already declared''"
| "Error AssertMustHaveSingleArgument = ''assert must have single argument''"
| "Error NotSupportedFunOfCallExpr = ''not supported Fun of CallExpr''"
| "Error NotSupportedXOfExprStmt = ''not supported X of ExprStmt''"
| "Error NotSupportedExpr = ''not supported Expr''"
| "Error (IsUnknownVariable n) = n @ '' is unknown variable''"
| "Error NotSupportedBop = ''not supported bop''"
| "Error TooFewArgumentOfCallExpr = ''too few argument of CallExpr''"
| "Error DistinctMustHave2ArgumentsAtLeast = ''distinct must have 2 arguments at least''"
| "Error NotSupportedNameOfIndent = ''not supported Name of Indent''"
| "Error ImplesMustHaveSignleArgument = ''imples must have signle argument''"
| "Error IffMustHaveSingleArgument = ''iff must have single argument''"
| "Error NotSupportedSelNameOfSelectorExpr = ''not supported Sel.Name of SelectorExpr''"

text \<open>
  A Go function either returns or panics. The program has three places where the Go
  runtime panics on a tree the parser can deliver: a \<open>nil\<close> function body, an empty
  \<open>Specs\<close> slice, and an empty \<open>os.Args\<close>.
\<close>

datatype panic = NilPointerDereference | IndexOutOfRange | InterfaceConversion

datatype 'a outcome = Returns 'a | Panics panic

text \<open>
  The solver library (go-z3) is not part of the repository. Its handles \<open>*z3.AST\<close> are
  kept symbolic: a handle is \<open>Nil'\<close> (the \<open>nil\<close> pointer) or the record of the constructor
  call that made it, on the handles that call received. What the library does when it is
  handed a \<open>nil\<close> handle lies outside the program and is not modelled.
\<close>

datatype sort = IntSort | BoolSort

datatype z3ast =
    Nil'
  | Const string sort
  | IntLit int sort
  | TrueLit
  | FalseLit
  | Add z3ast z3ast
  | Sub z3ast z3ast
  | Mul z3ast z3ast
  | And z3ast z3ast
  | Or z3ast z3ast
  | Eq z3ast z3ast
  | Lt z3ast z3ast
  | Gt z3ast z3ast
  | Le z3ast z3ast
  | Ge z3ast z3ast
  | Not' z3ast
  | Distinct z3ast "z3ast list"
  | Implies z3ast z3ast
  | Iff z3ast z3ast

text \<open>\<open>z3.LBool\<close>, the verdict of \<open>Solver.Check\<close>.\<close>

datatype LBool = Z3False | Z3Undef | Z3True

section \<open>The symbol table\<close>

text \<open>
  \<open>varTab\<close> is a Go map from names to handles. It is kept as an association list so that
  its keys can be enumerated; \<open>varTab[k] = v\<close> is \<open>AList.update\<close> and an index expression
  \<open>varTab[k]\<close> yields the zero value \<open>nil\<close> for a missing key.
\<close>

type_synonym varTab = "(string \<times> z3ast) list"

definition index :: "varTab \<Rightarrow> string \<Rightarrow> z3ast" where
  "index vt k = (case map_of vt k of None \<Rightarrow> Nil' | Some t \<Rightarrow> t)"

definition present :: "varTab \<Rightarrow> string \<Rightarrow> bool" where
  "present vt k = (map_of vt k \<noteq> None)"

section \<open>\<open>strconv.Atoi\<close>\<close>

text \<open>
  The standard library's \<open>Atoi\<close>: an optional sign, then at least one decimal digit and
  nothing else, and the value must fit the 64-bit \<open>int\<close>. \<open>None\<close> stands for a non-nil
  error (the program never looks at the error value itself).
\<close>

definition isDigit :: "char \<Rightarrow> bool" where
  "isDigit c = (48 \<le> (of_char c :: int) \<and> (of_char c :: int) \<le> 57)"

fun digits :: "int \<Rightarrow> string \<Rightarrow> int option" where
  "digits n [] = Some n"
| "digits n (c # cs) =
     (if isDigit c then digits (n * 10 + ((of_char c :: int) - 48)) cs else None)"

definition Atoi :: "string \<Rightarrow> int option" where
  "Atoi s =
     (case s of
        [] \<Rightarrow> None
      | c # cs \<Rightarrow>
          (let ds = (if c = CHR ''-'' \<or> c = CHR ''+'' then cs else s) in
           if ds = [] then None
           else (case digits 0 ds of
                   None \<Rightarrow> None
                 | Some n \<Rightarrow>
                     if c = CHR ''-''
                     then (if n \<le> 2 ^ 63 then Some (- n) else None)
                     else (if n < 2 ^ 63 then Some n else None))))"

section \<open>The expression compiler (process.go)\<close>

text \<open>
  Every function of the expression compiler returns the Go pair \<open>(r, err)\<close>: a handle,
  \<open>Nil'\<close> when \<open>r\<close> was never assigned, and an optional error, \<open>None\<close> for \<open>nil\<close>.
\<close>

type_synonym result = "z3ast \<times> error option"

definition processIdent :: "varTab \<Rightarrow> string \<Rightarrow> result" where
  "processIdent vt name =
     (if name = ''true'' then (TrueLit, None)
      else if name = ''false'' then (FalseLit, None)
      else if index vt name \<noteq> Nil' then (index vt name, None)
      else (Nil', Some (IsUnknownVariable name)))"

text \<open>
  In \<open>processBasicLit\<close> the statement \<open>intVal, err := strconv.Atoi(...)\<close> declares a new
  \<open>err\<close> inside the \<open>if\<close> block, so the function's result \<open>err\<close> is never assigned.
\<close>

definition processBasicLit :: "token \<Rightarrow> string \<Rightarrow> result" where
  "processBasicLit kind val =
     (if kind = INT'
      then (case Atoi val of
              Some intVal \<Rightarrow> (IntLit intVal IntSort, None)
            | None \<Rightarrow> (Nil', None))
      else (Nil', None))"

fun processBOP :: "token \<Rightarrow> z3ast \<Rightarrow> z3ast \<Rightarrow> result" where
  "processBOP ADD x y = (Add x y, None)"
| "processBOP SUB x y = (Sub x y, None)"
| "processBOP MUL x y = (Mul x y, None)"
| "processBOP LAND x y = (And x y, None)"
| "processBOP LOR x y = (Or x y, None)"
| "processBOP EQL x y = (Eq x y, None)"
| "processBOP LSS x y = (Lt x y, None)"
| "processBOP GTR x y = (Gt x y, None)"
| "processBOP NEQ x y = (Not' (Eq x y), None)"
| "processBOP LEQ x y = (Le x y, None)"
| "processBOP GEQ x y = (Ge x y, None)"
| "processBOP _ x y = (Nil', Some NotSupportedBop)"

text \<open>
  \<open>processExpr\<close> and the functions it dispatches to call each other. \<open>processArgs\<close> is the
  loop at the head of \<open>processCallExpr\<close>: it gives the handles appended to \<open>args\<close> before
  the loop ended and the value of \<open>err\<close> at that point. \<open>processCallExpr\<close> goes on to the
  \<open>switch\<close> on \<open>ce.Fun\<close> whatever \<open>err\<close> is by then.
\<close>

function (sequential) processExpr :: "varTab \<Rightarrow> expr \<Rightarrow> result"
and processBinaryExpr :: "varTab \<Rightarrow> expr \<Rightarrow> token \<Rightarrow> expr \<Rightarrow> result"
and processUnaryExpr :: "varTab \<Rightarrow> token \<Rightarrow> expr \<Rightarrow> result"
and processCallExpr :: "varTab \<Rightarrow> expr \<Rightarrow> expr list \<Rightarrow> result"
and processArgs :: "varTab \<Rightarrow> expr list \<Rightarrow> z3ast list \<times> error option"
where
  "processExpr vt (Ident name) = processIdent vt name"
| "processExpr vt (BasicLit kind val) = processBasicLit kind val"
| "processExpr vt (BinaryExpr x op y) = processBinaryExpr vt x op y"
| "processExpr vt (UnaryExpr op x) = processUnaryExpr vt op x"
| "processExpr vt (CallExpr f as) = processCallExpr vt f as"
| "processExpr vt (ParenExpr x) = processExpr vt x"
| "processExpr vt (SelectorExpr x sel) = (Nil', Some NotSupportedExpr)"
| "processExpr vt (ArrayType n elt) = (Nil', Some NotSupportedExpr)"
| "processExpr vt OtherExpr = (Nil', Some NotSupportedExpr)"
| "processBinaryExpr vt bx op by =
     (case processExpr vt bx of
        (x, Some e) \<Rightarrow> (Nil', Some e)
      | (x, None) \<Rightarrow>
          (case processExpr vt by of
             (y, Some e) \<Rightarrow> (Nil', Some e)
           | (y, None) \<Rightarrow> processBOP op x y))"
| "processUnaryExpr vt op ux =
     (case processExpr vt ux of
        (x, Some e) \<Rightarrow> (Nil', Some e)
      | (x, None) \<Rightarrow> (if op = NOT then (Not' x, None) else (Nil', Some NotSupportedBop)))"
| "processCallExpr vt f as =
     (case processArgs vt as of
        (args, err0) \<Rightarrow>
          (let err = (if length args = 0 then Some TooFewArgumentOfCallExpr else err0) in
           case f of
             Ident name \<Rightarrow>
               if name = ''distinct''
               then (if length args > 1 then (Distinct (hd args) (tl args), err)
                     else (Nil', Some DistinctMustHave2ArgumentsAtLeast))
               else (Nil', Some NotSupportedNameOfIndent)
           | SelectorExpr sx sel \<Rightarrow>
               (case processExpr vt sx of
                  (e, Some er) \<Rightarrow> (Nil', Some er)
                | (e, None) \<Rightarrow>
                    if sel = ''implies''
                    then (if length args = 1 then (Implies e (args ! 0), None)
                          else (Nil', Some ImplesMustHaveSignleArgument))
                    else if sel = ''iff''
                    then (if length args = 1 then (Iff e (args ! 0), None)
                          else (Nil', Some IffMustHaveSingleArgument))
                    else (Nil', Some NotSupportedSelNameOfSelectorExpr))
           | _ \<Rightarrow> (Nil', Some NotSupportedFunOfCallExpr)))"
| "processArgs vt [] = ([], None)"
| "processArgs vt (a # as) =
     (case processExpr vt a of
        (e, Some er) \<Rightarrow> ([], Some er)
      | (e, None) \<Rightarrow> (case processArgs vt as of (es, err) \<Rightarrow> (e # es, err)))"
  by pat_completeness auto

termination
  apply (relation "measure (\<lambda>v. case v of
      Inl (Inl (vt, e)) \<Rightarrow> 3 * size e
    | Inl (Inr (vt, x, op, y)) \<Rightarrow> 3 * (size x + size y) + 1
    | Inr (Inl (vt, op, x)) \<Rightarrow> 3 * size x + 1
    | Inr (Inr (Inl (vt, f, as))) \<Rightarrow> 3 * (size f + size_list size as) + 2
    | Inr (Inr (Inr (vt, as))) \<Rightarrow> 3 * size_list size as + 1)")
  apply simp_all
  done

section \<open>The statement compiler (process.go)\<close>

text \<open>
  The statement compiler works on the symbol table and on the solver, to which
  \<open>s.Assert(x)\<close> appends the handle \<open>x\<close>. Both are changed in place by the program and
  passed through here.
\<close>

record state =
  varTab :: varTab
  solver :: "z3ast list"

text \<open>The loop over \<open>vs.Names\<close> at the end of \<open>processVarSpec\<close>.\<close>

fun declareNames :: "sort \<Rightarrow> string list \<Rightarrow> varTab \<Rightarrow> varTab \<times> error option" where
  "declareNames srt [] vt = (vt, None)"
| "declareNames srt (name # names) vt =
     (if present vt name then (vt, Some (VarIsAlreadyDeclared name))
      else declareNames srt names (AList.update name (Const name srt) vt))"

definition processVarSpec :: "varTab \<Rightarrow> string list \<Rightarrow> expr option \<Rightarrow> varTab \<times> error option" where
  "processVarSpec vt names typ =
     (case typ of
        Some (Ident n) \<Rightarrow>
          if n = ''int'' then declareNames IntSort names vt
          else if n = ''bool'' then declareNames BoolSort names vt
          else (vt, Some (TypeIsNotSupported n))
      | Some (ArrayType l elt) \<Rightarrow> (vt, Some ArrayTypeOfVarSpecIsNotSupported)
      | _ \<Rightarrow> (vt, Some NotSupportedTypeOfValueSpec))"

text \<open>
  \<open>processDeclStmt\<close> hands \<open>gd.Specs[0].(*ast.ValueSpec)\<close> to \<open>processVarSpec\<close>: the index
  panics on an empty \<open>Specs\<close> (the parser accepts \<open>var ()\<close>) and the type assertion on a
  spec of another kind.
\<close>

definition processDeclStmt :: "state \<Rightarrow> decl \<Rightarrow> (state \<times> error option) outcome" where
  "processDeclStmt st d =
     (case d of
        GenDecl tok specs \<Rightarrow>
          if tok = VAR
          then (case specs of
                  [] \<Rightarrow> Panics IndexOutOfRange
                | ValueSpec names typ vals # rest \<Rightarrow>
                    (case processVarSpec (varTab st) names typ of
                       (vt, err) \<Rightarrow> Returns (st\<lparr>varTab := vt\<rparr>, err))
                | OtherSpec # rest \<Rightarrow> Panics InterfaceConversion)
          else Returns (st, Some NotSupportedTokOfDeclStmt)
      | _ \<Rightarrow> Returns (st, Some NotSupportedTokOfDeclStmt))"

definition processExprStmt :: "state \<Rightarrow> expr \<Rightarrow> state \<times> error option" where
  "processExprStmt st x =
     (case x of
        CallExpr f args \<Rightarrow>
          (case f of
             Ident name \<Rightarrow>
               if name = ''assert''
               then (if length args \<noteq> 1 then (st, Some AssertMustHaveSingleArgument)
                     else (case processExpr (varTab st) (args ! 0) of
                             (t, Some e) \<Rightarrow> (st, Some e)
                           | (t, None) \<Rightarrow> (st\<lparr>solver := solver st @ [t]\<rparr>, None)))
               else (st, Some NotSupportedFunOfCallExpr)
           | _ \<Rightarrow> (st, Some NotSupportedFunOfCallExpr))
      | _ \<Rightarrow> (st, Some NotSupportedXOfExprStmt))"

fun processStmt :: "state \<Rightarrow> stmt \<Rightarrow> (state \<times> error option) outcome" where
  "processStmt st (DeclStmt d) = processDeclStmt st d"
| "processStmt st (ExprStmt x) = Returns (processExprStmt st x)"
| "processStmt st OtherStmt = Returns (st, Some NotSupportedStmt)"

text \<open>The loop of \<open>processSmtlFile\<close>: it breaks at the first statement whose \<open>err\<close> is not \<open>nil\<close>.\<close>

fun processStmts :: "state \<Rightarrow> stmt list \<Rightarrow> (state \<times> error option) outcome" where
  "processStmts st [] = Returns (st, None)"
| "processStmts st (x # xs) =
     (case processStmt st x of
        Panics p \<Rightarrow> Panics p
      | Returns (st', Some e) \<Rightarrow> Returns (st', Some e)
      | Returns (st', None) \<Rightarrow> processStmts st' xs)"

section \<open>The syntax adapter (parse.go)\<close>

text \<open>
  The loop of \<open>parseSmtlFile\<close> over \<open>fileNode.Decls\<close>: the first \<open>FuncDecl\<close> whose name is
  \<open>main\<close> ends it, and \<open>funcDecl.Body.List\<close> dereferences \<open>Body\<close>. With no such declaration
  \<open>stmts\<close> stays \<open>nil\<close>, the empty slice.
\<close>

fun findMain :: "decl list \<Rightarrow> stmt list outcome" where
  "findMain [] = Returns []"
| "findMain (FuncDecl name params body # ds) =
     (if name = ''main''
      then (case body of None \<Rightarrow> Panics NilPointerDereference | Some b \<Rightarrow> Returns b)
      else findMain ds)"
| "findMain (d # ds) = findMain ds"

definition smtlPkgName :: string where
  "smtlPkgName = ''smtl''"

text \<open>
  \<open>parser.ParseFile\<close> reads the file system; it is a parameter \<open>pf\<close> that takes the path
  to its error or to the file node.
\<close>

definition parseSmtlFile :: "(string \<Rightarrow> error + astFile) \<Rightarrow> string \<Rightarrow> (stmt list \<times> error option) outcome" where
  "parseSmtlFile pf smtFilePath =
     (case pf smtFilePath of
        Inl e \<Rightarrow> Returns ([], Some e)
      | Inr fileNode \<Rightarrow>
          if Name fileNode \<noteq> smtlPkgName
          then Returns ([], Some (IsNotSupportedPackage (Name fileNode)))
          else (case findMain (Decls fileNode) of
                  Panics p \<Rightarrow> Panics p
                | Returns stmts \<Rightarrow> Returns (stmts, None)))"

text \<open>
  \<open>processSmtlFile\<close> returns the pair \<open>(s, err)\<close>; \<open>s\<close> is \<open>nil\<close> (\<open>None\<close>) only when parsing
  failed. The symbol table it filled is returned with it.
\<close>

definition processSmtlFile ::
  "(string \<Rightarrow> error + astFile) \<Rightarrow> varTab \<Rightarrow> string \<Rightarrow> (varTab \<times> z3ast list option \<times> error option) outcome" where
  "processSmtlFile pf vt smtFilePath =
     (case parseSmtlFile pf smtFilePath of
        Panics p \<Rightarrow> Panics p
      | Returns (stmts, Some e) \<Rightarrow> Returns (vt, None, Some e)
      | Returns (stmts, None) \<Rightarrow>
          (case processStmts \<lparr>varTab = vt, solver = []\<rparr> stmts of
             Panics p \<Rightarrow> Panics p
           | Returns (st, err) \<Rightarrow> Returns (varTab st, Some (solver st), err)))"

section \<open>The driver (main.go)\<close>

text \<open>
  What \<open>run\<close> takes from outside the program: the command line, the constant \<open>VERSION\<close>
  (declared in a file that is not at hand), the parser, the solver's verdict on the
  asserted handles, the text \<open>%s\<close> prints for the model's value of a name, and the order
  in which \<open>range varTab\<close> yields the keys, which Go leaves open.
\<close>

record env =
  Args :: "string list"
  VERSION :: string
  ParseFile :: "string \<Rightarrow> error + astFile"
  Check :: "z3ast list \<Rightarrow> LBool"
  Assignments :: "z3ast list \<Rightarrow> string \<Rightarrow> string"
  rangeKeys :: "varTab \<Rightarrow> string list"

text \<open>Lines 65 to 70 of main.go: \<open>sort.Strings(names)\<close>, then one line for each name.\<close>

definition printModel :: "string list \<Rightarrow> (string \<Rightarrow> string) \<Rightarrow> string list" where
  "printModel names assignments = map (\<lambda>name. name @ '' = '' @ assignments name) (sort names)"

text \<open>\<open>run\<close> gives the exit code, the lines written to standard output and those written
  to standard error.\<close>

definition run :: "env \<Rightarrow> (int \<times> string list \<times> string list) outcome" where
  "run ev =
     (if length (Args ev) < 2
      then (case Args ev of
              [] \<Rightarrow> Panics IndexOutOfRange
            | a0 # rest \<Rightarrow> Returns (1, [], [''Usage: '' @ a0 @ '' file.smt'']))
      else
        (let banner = ''smtrun '' @ VERSION ev in
         case processSmtlFile (ParseFile ev) [] (Args ev ! 1) of
           Panics p \<Rightarrow> Panics p
         | Returns (vt, s, Some e) \<Rightarrow> Returns (2, [banner], [Error e])
         | Returns (vt, None, None) \<Rightarrow> Panics NilPointerDereference
         | Returns (vt, Some asserted, None) \<Rightarrow>
             if Check ev asserted \<noteq> Z3True
             then Returns (3, [banner, ''Unsolveable''], [])
             else Returns (0, banner # printModel (rangeKeys ev vt) (Assignments ev asserted), [])))"


section \<open>Vocabulary of the properties\<close>

text \<open>
  Two predicates on top-level declarations, used to state what the syntax adapter looks
  for: a function declaration named \<open>main\<close>, and one that moreover has no parameters.
\<close>

definition isMain :: "decl \<Rightarrow> bool" where
  "isMain d = (case d of FuncDecl name params body \<Rightarrow> name = ''main'' | _ \<Rightarrow> False)"

definition isMainNoParams :: "decl \<Rightarrow> bool" where
  "isMainNoParams d =
     (case d of FuncDecl name params body \<Rightarrow> name = ''main'' \<and> params = [] | _ \<Rightarrow> False)"

text \<open>
  The entries that a declaration of \<open>names\<close> with sort \<open>srt\<close> adds to the symbol table, and
  what it means for a list of names to be new to a table: no name occurs twice in the list
  and none is a key of the table.
\<close>

definition declared :: "sort \<Rightarrow> string list \<Rightarrow> varTab" where
  "declared srt names = map (\<lambda>n. (n, Const n srt)) names"

definition fresh :: "varTab \<Rightarrow> string list \<Rightarrow> bool" where
  "fresh vt names = (distinct names \<and> filter (present vt) names = [])"

text \<open>The statement \<open>var x int\<close>.\<close>

definition varX :: stmt where
  "varX = DeclStmt (GenDecl VAR [ValueSpec [''x''] (Some (Ident ''int'')) []])"



text \<open>A file whose only function is a \<open>main\<close> that takes a parameter.\<close>

definition mainWithParameter :: astFile where
  "mainWithParameter =
     \<lparr>Name = ''smtl'',
      Decls = [FuncDecl ''main'' [Field [''a''] (Ident ''int'')] (Some [OtherStmt])]\<rparr>"



text \<open>
  A run on \<open>var b, a int; var c bool; assert(c)\<close> that the solver finds satisfiable, where
  \<open>range varTab\<close> yields the keys in the order \<open>c\<close>, \<open>a\<close>, \<open>b\<close>.
\<close>

definition threeVars :: astFile where
  "threeVars =
     \<lparr>Name = ''smtl'',
      Decls = [FuncDecl ''main'' []
        (Some [DeclStmt (GenDecl VAR [ValueSpec [''b'', ''a''] (Some (Ident ''int'')) []]),
               DeclStmt (GenDecl VAR [ValueSpec [''c''] (Some (Ident ''bool'')) []]),
               ExprStmt (CallExpr (Ident ''assert'') [Ident ''c''])])]\<rparr>"

definition satisfiable :: env where
  "satisfiable =
     \<lparr>Args = [''smtrun'', ''a.smtl''], VERSION = ''1'', ParseFile = (\<lambda>p. Inr threeVars),
      Check = (\<lambda>a. Z3True), Assignments = (\<lambda>a n. if n = ''c'' then ''true'' else ''0''),
      rangeKeys = (\<lambda>vt. rev (map fst vt))\<rparr>"

section \<open>Properties of the expression compiler\<close>

lemma processBasicLit_parses:
  "Atoi val = Some v \<Longrightarrow> processBasicLit INT' val = (IntLit v IntSort, None)"
  by (simp add: processBasicLit_def)

text \<open>
  Claim C1 asks that an integer literal whose text does not parse fails with an error.
  The code does not do so. The literals \<open>9223372036854775808\<close> (one past the largest
  \<open>int\<close>) and \<open>0x10\<close> are integer literals for the parser and are refused by \<open>Atoi\<close>, and
  \<open>processBasicLit\<close> returns the \<open>nil\<close> handle with no error for both; the program
  \<open>var x int; assert(x == 9223372036854775808)\<close> compiles without error and asserts an
  equation whose right side is \<open>nil\<close>.
\<close>

theorem processBasicLit_unparsed_literal:
  "Atoi ''9223372036854775808'' = None
   \<and> processBasicLit INT' ''9223372036854775808'' = (Nil', None)
   \<and> Atoi ''0x10'' = None
   \<and> processBasicLit INT' ''0x10'' = (Nil', None)
   \<and> processStmts \<lparr>varTab = [], solver = []\<rparr>
        [varX,
         ExprStmt (CallExpr (Ident ''assert'')
           [BinaryExpr (Ident ''x'') EQL (BasicLit INT' ''9223372036854775808'')])]
       = Returns (\<lparr>varTab = [(''x'', Const ''x'' IntSort)],
                   solver = [Eq (Const ''x'' IntSort) Nil']\<rparr>, None)"
  by (simp add: Atoi_def isDigit_def processBasicLit_def processDeclStmt_def processVarSpec_def
        present_def processExprStmt_def processIdent_def index_def varX_def)

text \<open>
  Claim C10. A basic literal whose kind is not \<open>INT\<close> yields the \<open>nil\<close> handle and the \<open>nil\<close>
  error. The \<open>nil\<close> handle then travels on: through parentheses, into the negation and the
  sum built by an enclosing operator, and, for \<open>assert\<close> applied to such a literal, into the
  solver.
\<close>

theorem processBasicLit_not_INT:
  assumes "kind \<noteq> INT'"
  shows "processBasicLit kind val = (Nil', None)
       \<and> processExpr vt (ParenExpr (BasicLit kind val)) = (Nil', None)
       \<and> processExpr vt (UnaryExpr NOT (BasicLit kind val)) = (Not' Nil', None)
       \<and> processExpr vt (BinaryExpr (BasicLit kind val) ADD (Ident ''true'')) = (Add Nil' TrueLit, None)
       \<and> processExprStmt st (CallExpr (Ident ''assert'') [BasicLit kind val]) =
           (st\<lparr>solver := solver st @ [Nil']\<rparr>, None)"
  using assms by (simp add: processBasicLit_def processExprStmt_def processIdent_def)

theorem processBasicLit_not_INT_witness:
  "processBasicLit STRING ''\"a\"'' = (Nil', None)
   \<and> processExpr [] (ParenExpr (BasicLit FLOAT ''1.5'')) = (Nil', None)
   \<and> processExprStmt \<lparr>varTab = [], solver = [TrueLit]\<rparr>
        (CallExpr (Ident ''assert'') [BasicLit STRING ''\"a\"''])
       = (\<lparr>varTab = [], solver = [TrueLit, Nil']\<rparr>, None)"
  using processBasicLit_not_INT [of STRING "''\"a\"''" "[]" "\<lparr>varTab = [], solver = [TrueLit]\<rparr>"]
        processBasicLit_not_INT [of FLOAT "''1.5''" "[]" "\<lparr>varTab = [], solver = []\<rparr>"]
  by simp

text \<open>
  Claim C3 asks that \<open>implies\<close> and \<open>iff\<close> take exactly one argument. The code compiles the
  arguments first and keeps those compiled before the first failure; the result of
  compiling the receiver then overwrites \<open>err\<close>. With \<open>x\<close> and \<open>y\<close> declared and \<open>z\<close> not,
  \<open>x.implies(y, z)\<close> compiles without error to the implication of \<open>x\<close> and \<open>y\<close>, although
  \<open>z\<close> alone is an unknown variable; and \<open>x.implies(z)\<close> fails with the message about the
  number of arguments instead of the one about \<open>z\<close>.
\<close>

theorem processCallExpr_implies_drops_failing_argument:
  "processExpr [(''x'', Const ''x'' BoolSort), (''y'', Const ''y'' BoolSort)]
     (CallExpr (SelectorExpr (Ident ''x'') ''implies'') [Ident ''y'', Ident ''z''])
     = (Implies (Const ''x'' BoolSort) (Const ''y'' BoolSort), None)
   \<and> processExpr [(''x'', Const ''x'' BoolSort), (''y'', Const ''y'' BoolSort)] (Ident ''z'')
     = (Nil', Some (IsUnknownVariable ''z''))
   \<and> processExpr [(''x'', Const ''x'' BoolSort), (''y'', Const ''y'' BoolSort)]
     (CallExpr (SelectorExpr (Ident ''x'') ''implies'') [Ident ''z''])
     = (Nil', Some ImplesMustHaveSignleArgument)"
  by (simp add: processIdent_def index_def)

text \<open>
  What does hold of a method-style call: when the receiver fails, its error is the one
  returned, whatever the arguments do; and when the receiver and every argument compile
  without error, \<open>implies\<close> and \<open>iff\<close> with one argument yield the implication and the
  biconditional of the receiver's handle and the argument's.
\<close>

lemma processCallExpr_receiver_error:
  "processExpr vt sx = (r, Some e) \<Longrightarrow>
   processExpr vt (CallExpr (SelectorExpr sx sel) as) = (Nil', Some e)"
  by (auto simp: Let_def split: prod.splits)

lemma processCallExpr_implies_iff:
  "processExpr vt sx = (r, None) \<Longrightarrow> processExpr vt a = (t, None) \<Longrightarrow>
   processExpr vt (CallExpr (SelectorExpr sx ''implies'') [a]) = (Implies r t, None)
   \<and> processExpr vt (CallExpr (SelectorExpr sx ''iff'') [a]) = (Iff r t, None)"
  by simp

text \<open>
  Claim C4 asks that a call without arguments fails with the error about the number of
  arguments whatever the callee. The code sets \<open>err\<close> to \<open>too few argument of CallExpr\<close> and
  goes on to the \<open>switch\<close> on the callee, where every branch that can be reached without
  arguments assigns \<open>err\<close> again: \<open>foo()\<close> fails as a call of an unsupported name,
  \<open>u.implies()\<close> with \<open>u\<close> undeclared fails on \<open>u\<close>, and \<open>true.foo()\<close> fails on the method name.
\<close>

theorem processCallExpr_no_arguments_other_callee:
  "processExpr [] (CallExpr (Ident ''foo'') []) = (Nil', Some NotSupportedNameOfIndent)
   \<and> processExpr [] (CallExpr (SelectorExpr (Ident ''u'') ''implies'') [])
       = (Nil', Some (IsUnknownVariable ''u''))
   \<and> processExpr [] (CallExpr (SelectorExpr (Ident ''true'') ''foo'') [])
       = (Nil', Some NotSupportedSelNameOfSelectorExpr)"
  by (simp add: processIdent_def index_def)

text \<open>
  The error \<open>too few argument of CallExpr\<close> is in fact never returned, by any function of
  the expression compiler on any input.
\<close>

lemma processBOP_error: "snd (processBOP op x y) \<noteq> Some TooFewArgumentOfCallExpr"
  by (cases op) simp_all

lemma too_few_argument_never_returned:
  "snd (processExpr vt e) \<noteq> Some TooFewArgumentOfCallExpr"
  "snd (processBinaryExpr vt x op y) \<noteq> Some TooFewArgumentOfCallExpr"
  "snd (processUnaryExpr vt op ux) \<noteq> Some TooFewArgumentOfCallExpr"
  "snd (processCallExpr vt f as) \<noteq> Some TooFewArgumentOfCallExpr"
  "snd (processArgs vt as) \<noteq> Some TooFewArgumentOfCallExpr"
proof (induction vt e and vt x op y and vt op ux and vt f as and vt as
       rule: processExpr_processBinaryExpr_processUnaryExpr_processCallExpr_processArgs.induct)
  case (1 vt name)
  then show ?case by (simp add: processIdent_def)
next
  case (2 vt kind val)
  then show ?case by (simp add: processBasicLit_def split: option.splits)
next
  case (10 vt bx op "by")
  show ?case
  proof (cases "processExpr vt bx")
    case (Pair x ex)
    show ?thesis
    proof (cases ex)
      case (Some e)
      with Pair "10.IH"(1) show ?thesis by simp
    next
      case None
      with Pair "10.IH"(2) [of x ex]
      have "snd (processExpr vt by) \<noteq> Some TooFewArgumentOfCallExpr"
        by simp
      with Pair None processBOP_error [of op x] show ?thesis
        by (auto split: prod.splits option.splits)
    qed
  qed
next
  case (11 vt op ux)
  then show ?case by (auto split: prod.splits option.splits)
next
  case (12 vt f as)
  obtain args err0 where args: "processArgs vt as = (args, err0)"
    by (cases "processArgs vt as") auto
  with "12.IH"(1) have err0: "err0 \<noteq> Some TooFewArgumentOfCallExpr" by simp
  show ?case
  proof (cases f)
    case (Ident name)
    with args err0 show ?thesis by (auto simp: Let_def)
  next
    case (SelectorExpr sx sel)
    from "12.IH"(2) [OF args [symmetric] refl SelectorExpr]
    have "snd (processExpr vt sx) \<noteq> Some TooFewArgumentOfCallExpr" .
    with args SelectorExpr show ?thesis
      by (auto simp: Let_def split: prod.splits option.splits)
  qed (simp_all add: args Let_def)
next
  case (14 vt a as)
  show ?case
  proof (cases "processExpr vt a")
    case (Pair x ex)
    show ?thesis
    proof (cases ex)
      case (Some e)
      with Pair "14.IH"(1) show ?thesis by simp
    next
      case None
      with Pair "14.IH"(2) [of x ex]
      have "snd (processArgs vt as) \<noteq> Some TooFewArgumentOfCallExpr"
        by simp
      with Pair None show ?thesis by (auto split: prod.splits)
    qed
  qed
qed simp_all

text \<open>
  The other two parts of claim C4 hold: \<open>distinct\<close> with one argument fails with its own
  message about the number of arguments, and a call of any other identifier fails as a
  call of an unsupported name.
\<close>

lemma distinct_one_argument:
  "processExpr vt (CallExpr (Ident ''distinct'') [a]) =
     (Nil', Some DistinctMustHave2ArgumentsAtLeast)"
  by (auto split: prod.splits option.splits)

lemma call_other_identifier:
  "name \<noteq> ''distinct'' \<Longrightarrow>
   processExpr vt (CallExpr (Ident name) as) = (Nil', Some NotSupportedNameOfIndent)"
  by (auto split: prod.splits)

section \<open>Properties of the statement compiler\<close>

lemma update_absent: "k \<notin> fst ` set al \<Longrightarrow> AList.update k v al = al @ [(k, v)]"
  by (induction al) auto

lemma present_iff: "present vt k \<longleftrightarrow> k \<in> fst ` set vt"
  by (simp add: present_def map_of_eq_None_iff)

lemma fresh_iff: "fresh vt names \<longleftrightarrow> distinct names \<and> (\<forall>n\<in>set names. \<not> present vt n)"
  by (auto simp: fresh_def filter_empty_conv)

lemma declareNames_fresh:
  "distinct names \<Longrightarrow> \<forall>n\<in>set names. \<not> present vt n \<Longrightarrow>
   declareNames srt names vt = (vt @ map (\<lambda>n. (n, Const n srt)) names, None)"
proof (induction names arbitrary: vt)
  case Nil
  then show ?case by simp
next
  case (Cons n ns)
  have new: "n \<notin> fst ` set vt" using Cons.prems by (simp add: present_iff)
  have upd: "AList.update n (Const n srt) vt = vt @ [(n, Const n srt)]"
    by (rule update_absent [OF new])
  have "\<forall>m\<in>set ns. \<not> present (vt @ [(n, Const n srt)]) m"
    using Cons.prems by (auto simp: present_iff)
  with Cons.IH [of "vt @ [(n, Const n srt)]"] Cons.prems upd show ?case
    by (simp add: present_iff)
qed

lemma declareNames_duplicate:
  "distinct pre \<Longrightarrow> \<forall>m\<in>set pre. \<not> present vt m \<Longrightarrow> present vt n \<or> n \<in> set pre \<Longrightarrow>
   declareNames srt (pre @ n # post) vt =
     (vt @ map (\<lambda>m. (m, Const m srt)) pre, Some (VarIsAlreadyDeclared n))"
proof (induction pre arbitrary: vt)
  case Nil
  then show ?case by simp
next
  case (Cons p ps)
  have new: "p \<notin> fst ` set vt" using Cons.prems by (simp add: present_iff)
  have upd: "AList.update p (Const p srt) vt = vt @ [(p, Const p srt)]"
    by (rule update_absent [OF new])
  have a: "\<forall>m\<in>set ps. \<not> present (vt @ [(p, Const p srt)]) m"
    using Cons.prems by (auto simp: present_iff)
  have b: "present (vt @ [(p, Const p srt)]) n \<or> n \<in> set ps"
    using Cons.prems by (auto simp: present_iff)
  have c: "distinct ps" using Cons.prems by simp
  show ?case
    using Cons.IH [OF c a b] new upd by (simp add: present_iff)
qed

text \<open>
  Claim C6. For a declaration of the sort \<open>int\<close> or \<open>bool\<close>, the names are taken in order
  against the table as it grows. The first name that is already in the table, from an
  earlier declaration or from earlier in the same one, stops the declaration with the
  error \<open>var <name> is already declared\<close>, after the names before it were entered; when no
  name is in the table, each is entered with a constant of the declared sort and there is
  no error. In particular \<open>var x int\<close> twice fails on \<open>x\<close> with the solver still empty,
  whatever statements follow.
\<close>

theorem processVarSpec_declares:
  assumes "tn = ''int'' \<and> srt = IntSort \<or> tn = ''bool'' \<and> srt = BoolSort"
  shows "(fresh vt pre \<and> (present vt n \<or> n \<in> set pre) \<longrightarrow>
            processVarSpec vt (pre @ n # post) (Some (Ident tn)) =
              (vt @ declared srt pre, Some (VarIsAlreadyDeclared n)))
       \<and> (fresh vt names \<longrightarrow>
            processVarSpec vt names (Some (Ident tn)) = (vt @ declared srt names, None))
       \<and> processStmts \<lparr>varTab = [], solver = []\<rparr> (varX # varX # rest) =
            Returns (\<lparr>varTab = [(''x'', Const ''x'' IntSort)], solver = []\<rparr>,
                     Some (VarIsAlreadyDeclared ''x''))"
proof -
  have dup: "fresh vt pre \<and> (present vt n \<or> n \<in> set pre) \<longrightarrow>
            processVarSpec vt (pre @ n # post) (Some (Ident tn)) =
              (vt @ declared srt pre, Some (VarIsAlreadyDeclared n))"
    using assms
    by (auto simp: processVarSpec_def declared_def fresh_iff declareNames_duplicate)
  have ok: "fresh vt names \<longrightarrow>
            processVarSpec vt names (Some (Ident tn)) = (vt @ declared srt names, None)"
    using assms
    by (auto simp: processVarSpec_def declared_def fresh_iff declareNames_fresh)
  have twice: "processStmts \<lparr>varTab = [], solver = []\<rparr> (varX # varX # rest) =
            Returns (\<lparr>varTab = [(''x'', Const ''x'' IntSort)], solver = []\<rparr>,
                     Some (VarIsAlreadyDeclared ''x''))"
    by (simp add: varX_def processDeclStmt_def processVarSpec_def present_def)
  from dup ok twice show ?thesis by blast
qed

theorem processVarSpec_declares_witness:
  "processVarSpec [(''a'', Const ''a'' BoolSort)] [''x'', ''y'', ''a'', ''z''] (Some (Ident ''int'')) =
      ([(''a'', Const ''a'' BoolSort), (''x'', Const ''x'' IntSort), (''y'', Const ''y'' IntSort)],
       Some (VarIsAlreadyDeclared ''a''))
   \<and> processVarSpec [(''a'', Const ''a'' BoolSort)] [''x'', ''y''] (Some (Ident ''bool'')) =
      ([(''a'', Const ''a'' BoolSort), (''x'', Const ''x'' BoolSort), (''y'', Const ''y'' BoolSort)],
       None)"
proof -
  have one: "processVarSpec [(''a'', Const ''a'' BoolSort)] ([''x'', ''y''] @ ''a'' # [''z''])
               (Some (Ident ''int'')) =
      ([(''a'', Const ''a'' BoolSort)] @ declared IntSort [''x'', ''y''],
       Some (VarIsAlreadyDeclared ''a''))"
    using processVarSpec_declares
      [of "''int''" IntSort "[(''a'', Const ''a'' BoolSort)]" "[''x'', ''y'']" "''a''" "[''z'']"]
    by (simp add: fresh_def present_def)
  have two: "processVarSpec [(''a'', Const ''a'' BoolSort)] [''x'', ''y''] (Some (Ident ''bool'')) =
      ([(''a'', Const ''a'' BoolSort)] @ declared BoolSort [''x'', ''y''], None)"
    using processVarSpec_declares
      [of "''bool''" BoolSort "[(''a'', Const ''a'' BoolSort)]" _ _ _ "[''x'', ''y'']"]
    by (simp add: fresh_def present_def)
  from one two show ?thesis by (simp add: declared_def)
qed

text \<open>
  Claim C9. A \<open>var\<close> declaration with several specs is processed as if it had its first
  spec alone: the specs after the first have no part in the outcome, so they add no symbol
  and raise no error. For a first spec that is a value spec, the outcome is that of
  \<open>processVarSpec\<close> on its names and type.
\<close>

theorem processDeclStmt_first_spec_only:
  "processStmt st (DeclStmt (GenDecl VAR (sp # rest))) = processStmt st (DeclStmt (GenDecl VAR [sp]))
   \<and> processDeclStmt st (GenDecl VAR (ValueSpec names typ vals # rest)) =
       Returns (st\<lparr>varTab := fst (processVarSpec (varTab st) names typ)\<rparr>,
                snd (processVarSpec (varTab st) names typ))"
  by (cases sp) (simp_all add: processDeclStmt_def split: prod.splits)






text \<open>The keys of the symbol table stay pairwise different.\<close>

lemma distinct_declareNames:
  "distinct (map fst vt) \<Longrightarrow> distinct (map fst (fst (declareNames srt names vt)))"
  by (induction names arbitrary: vt) (simp_all add: distinct_update)

lemma distinct_processVarSpec:
  "distinct (map fst vt) \<Longrightarrow> distinct (map fst (fst (processVarSpec vt names typ)))"
  by (auto simp: processVarSpec_def distinct_declareNames split: option.splits expr.splits)

lemma distinct_processStmt:
  "distinct (map fst (varTab st)) \<Longrightarrow> processStmt st x = Returns (st', err) \<Longrightarrow>
   distinct (map fst (varTab st'))"
proof (cases x)
  case (DeclStmt d)
  assume dist: "distinct (map fst (varTab st))" and ret: "processStmt st x = Returns (st', err)"
  show ?thesis
  proof (cases d)
    case (GenDecl tok specs)
    show ?thesis
    proof (cases "tok = VAR")
      case True
      show ?thesis
      proof (cases specs)
        case Nil
        with ret DeclStmt GenDecl True show ?thesis by (simp add: processDeclStmt_def)
      next
        case (Cons sp rest)
        show ?thesis
        proof (cases sp)
          case (ValueSpec names ty vals)
          with ret DeclStmt GenDecl True Cons
          have "st' = st\<lparr>varTab := fst (processVarSpec (varTab st) names ty)\<rparr>"
            by (auto simp: processDeclStmt_def split: prod.splits)
          with dist show ?thesis by (simp add: distinct_processVarSpec)
        next
          case OtherSpec
          with ret DeclStmt GenDecl True Cons show ?thesis by (simp add: processDeclStmt_def)
        qed
      qed
    next
      case False
      with ret dist DeclStmt GenDecl show ?thesis by (auto simp: processDeclStmt_def)
    qed
  next
    case (FuncDecl n ps b)
    with ret dist DeclStmt show ?thesis by (auto simp: processDeclStmt_def)
  next
    case BadDecl
    with ret dist DeclStmt show ?thesis by (auto simp: processDeclStmt_def)
  qed
next
  case (ExprStmt e)
  assume dist: "distinct (map fst (varTab st))" and ret: "processStmt st x = Returns (st', err)"
  from ret ExprStmt have "varTab st' = varTab st"
    by (auto simp: processExprStmt_def
             split: expr.splits if_splits prod.splits option.splits)
  with dist show ?thesis by simp
next
  case OtherStmt
  assume "distinct (map fst (varTab st))" and "processStmt st x = Returns (st', err)"
  with OtherStmt show ?thesis by auto
qed

lemma distinct_processStmts:
  "distinct (map fst (varTab st)) \<Longrightarrow> processStmts st xs = Returns (st', err) \<Longrightarrow>
   distinct (map fst (varTab st'))"
proof (induction xs arbitrary: st)
  case Nil
  then show ?case by simp
next
  case (Cons x xs)
  show ?case
  proof (cases "processStmt st x")
    case (Panics p)
    with Cons.prems show ?thesis by simp
  next
    case (Returns r)
    obtain s1 e1 where r: "r = (s1, e1)" by (cases r) auto
    have d1: "distinct (map fst (varTab s1))"
      using distinct_processStmt [OF Cons.prems(1)] Returns r by simp
    show ?thesis
    proof (cases e1)
      case None
      with Cons.prems(2) Returns r have "processStmts s1 xs = Returns (st', err)" by simp
      from Cons.IH [OF d1 this] show ?thesis .
    next
      case (Some e)
      with Cons.prems(2) Returns r have "st' = s1" by simp
      with d1 show ?thesis by simp
    qed
  qed
qed

lemma distinct_processSmtlFile:
  "processSmtlFile pf [] path = Returns (vt, s, err) \<Longrightarrow> distinct (map fst vt)"
  by (auto simp: processSmtlFile_def split: outcome.splits prod.splits option.splits
           dest: distinct_processStmts [rotated])

section \<open>Properties of the syntax adapter\<close>

lemma findMain_no_main: "filter isMain ds = [] \<Longrightarrow> findMain ds = Returns []"
  by (induction ds rule: findMain.induct) (auto simp: isMain_def split: if_splits)

lemma findMain_first_main:
  "filter isMain pre = [] \<Longrightarrow>
   findMain (pre @ FuncDecl ''main'' ps body # post) =
     (case body of None \<Rightarrow> Panics NilPointerDereference | Some b \<Rightarrow> Returns b)"
  by (induction pre rule: findMain.induct) (auto simp: isMain_def split: if_splits)

text \<open>
  Claim C5, as the code has it. For a file that parses and whose package is \<open>smtl\<close>:
  the statement list is the body of the first top-level function declaration named
  \<open>main\<close>, taken as it is, whatever the parameters of that function and whatever follows
  it; and when no top-level function declaration is named \<open>main\<close> the result is the empty
  statement list and no error.
\<close>

theorem parseSmtlFile_first_main:
  assumes "pf path = Inr f" and "Name f = ''smtl''"
  shows "(Decls f = pre @ FuncDecl ''main'' ps (Some b) # post \<and> filter isMain pre = []
            \<longrightarrow> parseSmtlFile pf path = Returns (b, None))
       \<and> (filter isMain (Decls f) = [] \<longrightarrow> parseSmtlFile pf path = Returns ([], None))"
  using assms
  by (auto simp: parseSmtlFile_def smtlPkgName_def findMain_first_main findMain_no_main)

theorem parseSmtlFile_first_main_witness:
  "parseSmtlFile
     (\<lambda>p. Inr \<lparr>Name = ''smtl'',
                Decls = [GenDecl VAR [],
                         FuncDecl ''main'' [Field [''a''] (Ident ''int'')] (Some [OtherStmt]),
                         FuncDecl ''main'' [] (Some [])]\<rparr>) ''a.smtl''
     = Returns ([OtherStmt], None)
   \<and> parseSmtlFile (\<lambda>p. Inr \<lparr>Name = ''smtl'', Decls = [GenDecl VAR []]\<rparr>) ''a.smtl''
     = Returns ([], None)"
proof -
  let ?f1 = "\<lparr>Name = ''smtl'',
              Decls = [GenDecl VAR [],
                       FuncDecl ''main'' [Field [''a''] (Ident ''int'')] (Some [OtherStmt]),
                       FuncDecl ''main'' [] (Some [])]\<rparr>"
  let ?f2 = "\<lparr>Name = ''smtl'', Decls = [GenDecl VAR []]\<rparr>"
  have one: "parseSmtlFile (\<lambda>p. Inr ?f1) ''a.smtl'' = Returns ([OtherStmt], None)"
    using parseSmtlFile_first_main
      [of "\<lambda>p. Inr ?f1" "''a.smtl''" ?f1 "[GenDecl VAR []]" "[Field [''a''] (Ident ''int'')]"
          "[OtherStmt]" "[FuncDecl ''main'' [] (Some [])]"]
    by (simp add: isMain_def)
  have two: "parseSmtlFile (\<lambda>p. Inr ?f2) ''a.smtl'' = Returns ([], None)"
    using parseSmtlFile_first_main [of "\<lambda>p. Inr ?f2" "''a.smtl''" ?f2]
    by (simp add: isMain_def)
  from one two show ?thesis by simp
qed

text \<open>
  Claim C5 as it is written fails: \<open>mainWithParameter\<close> has no function named \<open>main\<close>
  without parameters, and yet the statement list obtained from it is not empty, since the
  parameters of \<open>main\<close> are never looked at.
\<close>

theorem parseSmtlFile_main_with_parameter:
  "filter isMainNoParams (Decls mainWithParameter) = []
   \<and> parseSmtlFile (\<lambda>p. Inr mainWithParameter) ''a.smtl'' = Returns ([OtherStmt], None)"
  by (simp add: parseSmtlFile_def smtlPkgName_def isMainNoParams_def mainWithParameter_def)

text \<open>
  A first \<open>main\<close> without a body, which the parser accepts, makes the syntax adapter
  panic; so does, in the statement compiler, a \<open>var\<close> declaration with no spec at all.
\<close>

lemma parseSmtlFile_main_without_body:
  "pf path = Inr f \<Longrightarrow> Name f = ''smtl'' \<Longrightarrow>
   Decls f = pre @ FuncDecl ''main'' ps None # post \<Longrightarrow> filter isMain pre = [] \<Longrightarrow>
   parseSmtlFile pf path = Panics NilPointerDereference"
  by (simp add: parseSmtlFile_def smtlPkgName_def findMain_first_main)

lemma processDeclStmt_no_spec: "processDeclStmt st (GenDecl VAR []) = Panics IndexOutOfRange"
  by (simp add: processDeclStmt_def)

section \<open>Properties of the driver\<close>



lemma sort_keys_unique:
  fixes ks :: "string list"
  assumes "distinct ks" and "distinct ns" and "set ks = set ns"
  shows "sort ks = sort ns"
  by (rule sorted_distinct_set_unique) (simp_all add: assms)

text \<open>
  Claim C8. In a run that compiles and that the solver finds satisfiable, standard output
  is the banner followed by one line \<open>name = value\<close> for each key of the symbol table, the
  names in ascending lexicographic order without repetition. The order is that of the
  sorted list of the set of keys, so neither the order of the declarations nor the order
  in which \<open>range\<close> yields the keys (each key once) has any part in it.
\<close>

theorem run_prints_sorted_model:
  assumes "2 \<le> length (Args ev)"
      and "processSmtlFile (ParseFile ev) [] (Args ev ! 1) = Returns (vt, Some a, None)"
      and "Check ev a = Z3True"
      and "distinct (rangeKeys ev vt)"
      and "set (rangeKeys ev vt) = fst ` set vt"
  shows "run ev = Returns (0, (''smtrun '' @ VERSION ev)
                    # map (\<lambda>name. name @ '' = '' @ Assignments ev a name) (sort (map fst vt)), [])
       \<and> sorted (sort (map fst vt))
       \<and> distinct (sort (map fst vt))
       \<and> sort (map fst vt) = sorted_list_of_set (fst ` set vt)"
proof -
  have dist: "distinct (map fst vt)"
    using assms(2) by (rule distinct_processSmtlFile)
  have "sort (rangeKeys ev vt) = sort (map fst vt)"
    using assms(4) dist assms(5) by (intro sort_keys_unique) simp_all
  then have out: "run ev = Returns (0, (''smtrun '' @ VERSION ev)
                    # map (\<lambda>name. name @ '' = '' @ Assignments ev a name) (sort (map fst vt)), [])"
    using assms(1,2,3) by (simp add: run_def printModel_def)
  have canon: "sort (map fst vt) = sorted_list_of_set (fst ` set vt)"
    using dist
    by (simp add: sorted_list_of_set_sort_remdups [of "map fst vt", simplified]
          distinct_remdups_id)
  from out dist canon show ?thesis by simp
qed

theorem run_prints_sorted_model_witness:
  "run satisfiable = Returns (0, [''smtrun 1'', ''a = 0'', ''b = 0'', ''c = true''], [])"
proof -
  let ?vt = "[(''b'', Const ''b'' IntSort), (''a'', Const ''a'' IntSort),
              (''c'', Const ''c'' BoolSort)]"
  have a: "2 \<le> length (Args satisfiable)" by (simp add: satisfiable_def)
  have b: "processSmtlFile (ParseFile satisfiable) [] (Args satisfiable ! 1) =
             Returns (?vt, Some [Const ''c'' BoolSort], None)"
    by (simp add: satisfiable_def threeVars_def processSmtlFile_def parseSmtlFile_def
          smtlPkgName_def processDeclStmt_def processVarSpec_def present_def processExprStmt_def
          processIdent_def index_def)
  have c: "Check satisfiable [Const ''c'' BoolSort] = Z3True" by (simp add: satisfiable_def)
  have d: "distinct (rangeKeys satisfiable ?vt)" by (simp add: satisfiable_def)
  have e: "set (rangeKeys satisfiable ?vt) = fst ` set ?vt" by (auto simp: satisfiable_def)
  have s: "sort [''b'', ''a'', ''c''] = [''a'', ''b'', ''c'']"
    by (simp add: less_eq_char_def)
  from run_prints_sorted_model [OF a b c d e] s show ?thesis
    by (simp add: satisfiable_def)
qed

end
